theory Spec2Isabelle
  imports Complex_Main "HOL-Library.Multiset" "HOL-Library.AList"
begin

section \<open>Values decoded from the configuration and rules files\<close>

text \<open>
  \<^verbatim>\<open>json.load\<close> and \<^verbatim>\<open>yaml.safe_load\<close> produce Python objects: \<^verbatim>\<open>None\<close>, \<^verbatim>\<open>bool\<close>,
  \<^verbatim>\<open>int\<close> (unbounded), \<^verbatim>\<open>float\<close>, \<^verbatim>\<open>str\<close>, \<^verbatim>\<open>list\<close> and \<^verbatim>\<open>dict\<close>. Dictionary keys are
  strings, as in every JSON object. A dictionary is an association list read with
  \<open>map_of\<close> (the first binding of a key is the one the dictionary holds).

  A \<^verbatim>\<open>float\<close> is kept by the number it denotes: every finite double is a rational, and
  Python compares an \<^verbatim>\<open>int\<close> with a \<^verbatim>\<open>float\<close>, and two floats, by their exact mathematical
  values. The two infinities and NaN, which \<^verbatim>\<open>json.load\<close> accepts, are separate values.
\<close>

datatype pyfloat = FNum rat | FPosInf | FNegInf | FNaN

datatype pyval =
    PNone
  | PBool bool
  | PInt int
  | PFloat pyfloat
  | PStr string
  | PList "pyval list"
  | PDict "(string \<times> pyval) list"

datatype exn = AttributeError | TypeError | ValueError

text \<open>Truth value of an object, as \<^verbatim>\<open>not x\<close> tests it.\<close>

fun py_truthy :: "pyval \<Rightarrow> bool" where
  "py_truthy PNone = False"
| "py_truthy (PBool b) = b"
| "py_truthy (PInt i) = (i \<noteq> 0)"
| "py_truthy (PFloat f) = (f \<noteq> FNum 0)"
| "py_truthy (PStr s) = (s \<noteq> [])"
| "py_truthy (PList xs) = (xs \<noteq> [])"
| "py_truthy (PDict kvs) = (kvs \<noteq> [])"

text \<open>\<^verbatim>\<open>type(value).__name__\<close>\<close>

fun type_name :: "pyval \<Rightarrow> string" where
  "type_name PNone = ''NoneType''"
| "type_name (PBool b) = ''bool''"
| "type_name (PInt i) = ''int''"
| "type_name (PFloat f) = ''float''"
| "type_name (PStr s) = ''str''"
| "type_name (PList xs) = ''list''"
| "type_name (PDict kvs) = ''dict''"

text \<open>
  \<^verbatim>\<open>isinstance(value, T)\<close>. In Python \<^verbatim>\<open>bool\<close> is a subclass of \<^verbatim>\<open>int\<close>, so
  \<^verbatim>\<open>isinstance(True, int)\<close> holds.
\<close>

fun isinstance_int :: "pyval \<Rightarrow> bool" where
  "isinstance_int (PInt i) = True"
| "isinstance_int (PBool b) = True"
| "isinstance_int _ = False"

fun isinstance_float :: "pyval \<Rightarrow> bool" where
  "isinstance_float (PFloat f) = True"
| "isinstance_float _ = False"

fun isinstance_str :: "pyval \<Rightarrow> bool" where
  "isinstance_str (PStr s) = True"
| "isinstance_str _ = False"

fun isinstance_bool :: "pyval \<Rightarrow> bool" where
  "isinstance_bool (PBool b) = True"
| "isinstance_bool _ = False"

fun isinstance_list :: "pyval \<Rightarrow> bool" where
  "isinstance_list (PList xs) = True"
| "isinstance_list _ = False"

text \<open>Lists and dictionaries are unhashable: using one as a dictionary key raises.\<close>

fun hashable :: "pyval \<Rightarrow> bool" where
  "hashable (PList xs) = False"
| "hashable (PDict kvs) = False"
| "hashable _ = True"

text \<open>
  \<^verbatim>\<open>obj.get(key)\<close>: on a dictionary the value bound to the key, or \<^verbatim>\<open>None\<close>; a key that is
  not a string is bound to nothing; an unhashable key raises \<^verbatim>\<open>TypeError\<close>. Any other
  object has no attribute \<^verbatim>\<open>get\<close>.
\<close>

fun py_get :: "pyval \<Rightarrow> pyval \<Rightarrow> exn + pyval" where
  "py_get (PDict kvs) key =
     (if hashable key then
        (case key of
           PStr k \<Rightarrow> (case map_of kvs k of Some v \<Rightarrow> Inr v | None \<Rightarrow> Inr PNone)
         | _ \<Rightarrow> Inr PNone)
      else Inl TypeError)"
| "py_get _ key = Inl AttributeError"

text \<open>
  \<^verbatim>\<open>for rule in obj\<close>: a list gives its elements, a dictionary its keys, a string its
  characters; nothing else is iterable.
\<close>

fun py_iter :: "pyval \<Rightarrow> exn + pyval list" where
  "py_iter (PList xs) = Inr xs"
| "py_iter (PDict kvs) = Inr (map (\<lambda>kv. PStr (fst kv)) kvs)"
| "py_iter (PStr s) = Inr (map (\<lambda>c. PStr [c]) s)"
| "py_iter _ = Inl TypeError"

text \<open>
  Ordering. Both comparisons of the source have a left operand that passed
  \<^verbatim>\<open>isinstance(value, int)\<close> or \<^verbatim>\<open>isinstance(value, (int, float))\<close>: a number. A number
  compared with a number (a \<^verbatim>\<open>bool\<close> counts as 0 or 1) is compared by value; a number
  compared with anything else raises \<^verbatim>\<open>TypeError\<close>.
\<close>

fun num_of :: "pyval \<Rightarrow> pyfloat option" where
  "num_of (PInt i) = Some (FNum (of_int i))"
| "num_of (PBool b) = Some (FNum (if b then 1 else 0))"
| "num_of (PFloat f) = Some f"
| "num_of _ = None"

fun float_lt :: "pyfloat \<Rightarrow> pyfloat \<Rightarrow> bool" where
  "float_lt (FNum a) (FNum b) = (a < b)"
| "float_lt (FNum a) FPosInf = True"
| "float_lt FNegInf (FNum b) = True"
| "float_lt FNegInf FPosInf = True"
| "float_lt _ _ = False"

definition py_lt :: "pyval \<Rightarrow> pyval \<Rightarrow> exn + bool" where
  "py_lt a b =
     (case num_of a of
        None \<Rightarrow> Inl TypeError
      | Some x \<Rightarrow> (case num_of b of None \<Rightarrow> Inl TypeError | Some y \<Rightarrow> Inr (float_lt x y)))"

definition py_gt :: "pyval \<Rightarrow> pyval \<Rightarrow> exn + bool" where
  "py_gt a b =
     (case num_of a of
        None \<Rightarrow> Inl TypeError
      | Some x \<Rightarrow> (case num_of b of None \<Rightarrow> Inl TypeError | Some y \<Rightarrow> Inr (float_lt y x)))"

text \<open>
  Conversion to text, as an f-string does it with \<^verbatim>\<open>{x}\<close>. Since CPython 3.11 the text
  of an \<^verbatim>\<open>int\<close> of more than \<^verbatim>\<open>sys.get_int_max_str_digits()\<close> decimal digits, 4300 unless
  configured, raises \<^verbatim>\<open>ValueError\<close>; \<^verbatim>\<open>yaml.safe_load\<close> reads such an \<^verbatim>\<open>int\<close> from a
  hexadecimal scalar. The text of a list or of a dictionary holds the text of its
  members. Nothing else raises.
\<close>

definition int_max_str_digits :: nat where
  "int_max_str_digits = 4300"

definition int_str_raises :: "int \<Rightarrow> bool" where
  "int_str_raises i = (10 ^ int_max_str_digits \<le> abs i)"

fun str_raises :: "pyval \<Rightarrow> bool" where
  "str_raises (PInt i) = int_str_raises i"
| "str_raises (PList xs) = list_ex str_raises xs"
| "str_raises (PDict kvs) = list_ex (\<lambda>kv. str_raises (snd kv)) kvs"
| "str_raises _ = False"

section \<open>Diagnostics\<close>

text \<open>
  Every \<^verbatim>\<open>logging.warning\<close> and \<^verbatim>\<open>logging.error\<close> call of \<^verbatim>\<open>validate_config\<close> appends one
  entry: the level and the message, the message kept by its format string and the
  objects formatted into it. The message is built before the call: when the text of
  one of its objects raises, nothing is logged and the exception is raised where the
  call stands.
\<close>

datatype level = WARNING | ERROR

datatype message =
    ConfigNotLoaded
  | RulesNotLoaded
  | NotFound pyval
  | IncorrectType pyval string string
  | LessThanMinimum pyval pyval pyval
  | GreaterThanMaximum pyval pyval pyval
  | ErrorValidating pyval exn

type_synonym log = "(level \<times> message) list"

text \<open>The violation kinds of the specification, and the parameter a message names.\<close>

datatype kind = NotLoaded | MissingParameter | TypeMismatch | RangeViolation | RuleEvaluationFault

fun kind_of :: "message \<Rightarrow> kind" where
  "kind_of ConfigNotLoaded = NotLoaded"
| "kind_of RulesNotLoaded = NotLoaded"
| "kind_of (NotFound p) = MissingParameter"
| "kind_of (IncorrectType p expected actual) = TypeMismatch"
| "kind_of (LessThanMinimum p v m) = RangeViolation"
| "kind_of (GreaterThanMaximum p v m) = RangeViolation"
| "kind_of (ErrorValidating p e) = RuleEvaluationFault"

fun parameter_of :: "message \<Rightarrow> pyval option" where
  "parameter_of ConfigNotLoaded = None"
| "parameter_of RulesNotLoaded = None"
| "parameter_of (NotFound p) = Some p"
| "parameter_of (IncorrectType p expected actual) = Some p"
| "parameter_of (LessThanMinimum p v m) = Some p"
| "parameter_of (GreaterThanMaximum p v m) = Some p"
| "parameter_of (ErrorValidating p e) = Some p"

definition diagnostic_tuple :: "level \<times> message \<Rightarrow> pyval option \<times> level \<times> kind" where
  "diagnostic_tuple d = (parameter_of (snd d), fst d, kind_of (snd d))"

section \<open>validate_config\<close>

text \<open>
  Lines 115 to 139, the type validation: the expected type name when the
  \<^verbatim>\<open>isinstance\<close> test of the rule's type fails, \<open>None\<close> when it holds or when the type
  is none of the five names.
\<close>

definition type_validation :: "pyval \<Rightarrow> pyval \<Rightarrow> string option" where
  "type_validation data_type v =
     (if data_type = PStr ''integer'' then
        (if \<not> isinstance_int v then Some ''integer'' else None)
      else if data_type = PStr ''float'' then
        (if \<not> (isinstance_int v \<or> isinstance_float v) then Some ''float'' else None)
      else if data_type = PStr ''string'' then
        (if \<not> isinstance_str v then Some ''string'' else None)
      else if data_type = PStr ''boolean'' then
        (if \<not> isinstance_bool v then Some ''boolean'' else None)
      else if data_type = PStr ''list'' then
        (if \<not> isinstance_list v then Some ''list'' else None)
      else None)"

text \<open>
  Lines 142 to 151, the range validation. \<^verbatim>\<open>and\<close> is short-circuit: a bound that is
  \<^verbatim>\<open>None\<close> is not compared. A comparison that raises, or a message that cannot be
  built, leaves the block with the entries logged so far.
\<close>

definition range_validation ::
  "pyval \<Rightarrow> pyval \<Rightarrow> pyval \<Rightarrow> pyval \<Rightarrow> pyval \<Rightarrow> bool \<Rightarrow> log \<times> (exn + bool)" where
  "range_validation parameter data_type v min_value max_value is_valid =
     (if data_type = PStr ''integer'' \<or> data_type = PStr ''float'' then
        (case (if min_value \<noteq> PNone then py_lt v min_value else Inr False) of
           Inl e \<Rightarrow> ([], Inl e)
         | Inr too_small \<Rightarrow>
             if too_small \<and> (str_raises parameter \<or> str_raises v \<or> str_raises min_value)
             then ([], Inl ValueError)
             else
             (let log1 = (if too_small then [(ERROR, LessThanMinimum parameter v min_value)] else []);
                  valid1 = (if too_small then False else is_valid)
              in (case (if max_value \<noteq> PNone then py_gt v max_value else Inr False) of
                    Inl e \<Rightarrow> (log1, Inl e)
                  | Inr too_large \<Rightarrow>
                      if too_large \<and> (str_raises parameter \<or> str_raises v \<or> str_raises max_value)
                      then (log1, Inl ValueError)
                      else
                      (log1 @ (if too_large then [(ERROR, GreaterThanMaximum parameter v max_value)] else []),
                       Inr (if too_large then False else valid1)))))
      else ([], Inr is_valid))"

text \<open>
  Lines 108 to 151, the body of the \<^verbatim>\<open>try\<close>: the entries it logs, and either the
  exception it raises or the value of \<^verbatim>\<open>is_valid\<close> where it ends (by \<^verbatim>\<open>continue\<close> or by
  reaching its end).
\<close>

definition try_body ::
  "pyval \<Rightarrow> pyval \<Rightarrow> pyval \<Rightarrow> pyval \<Rightarrow> pyval \<Rightarrow> bool \<Rightarrow> log \<times> (exn + bool)" where
  "try_body config_data parameter data_type min_value max_value is_valid =
     (case py_get config_data parameter of
        Inl e \<Rightarrow> ([], Inl e)
      | Inr v \<Rightarrow>
          if v = PNone then
            (if str_raises parameter then ([], Inl ValueError)
             else ([(WARNING, NotFound parameter)], Inr is_valid))
          else (case type_validation data_type v of
                  Some expected \<Rightarrow>
                    (if str_raises parameter then ([], Inl ValueError)
                     else ([(ERROR, IncorrectType parameter expected (type_name v))], Inr False))
                | None \<Rightarrow> range_validation parameter data_type v min_value max_value is_valid))"

text \<open>
  Lines 102 to 154, one iteration of the loop. The four \<^verbatim>\<open>rule.get\<close> calls stand before
  the \<^verbatim>\<open>try\<close>: what they raise leaves \<^verbatim>\<open>validate_config\<close> (\<open>Inl\<close>). What the body of the
  \<^verbatim>\<open>try\<close> raises is caught, logged, and sets \<^verbatim>\<open>is_valid\<close> to \<^verbatim>\<open>False\<close>; the message of
  the handler holds the parameter, and what building it raises leaves
  \<^verbatim>\<open>validate_config\<close> as well.
\<close>

definition check_rule :: "pyval \<Rightarrow> pyval \<Rightarrow> bool \<Rightarrow> log \<times> (exn + bool)" where
  "check_rule config_data rule is_valid =
     (case py_get rule (PStr ''parameter'') of
        Inl e \<Rightarrow> ([], Inl e)
      | Inr parameter \<Rightarrow>
     (case py_get rule (PStr ''type'') of
        Inl e \<Rightarrow> ([], Inl e)
      | Inr data_type \<Rightarrow>
     (case py_get rule (PStr ''min'') of
        Inl e \<Rightarrow> ([], Inl e)
      | Inr min_value \<Rightarrow>
     (case py_get rule (PStr ''max'') of
        Inl e \<Rightarrow> ([], Inl e)
      | Inr max_value \<Rightarrow>
     (case try_body config_data parameter data_type min_value max_value is_valid of
        (lg, Inl e) \<Rightarrow>
          if str_raises parameter then (lg, Inl ValueError)
          else (lg @ [(ERROR, ErrorValidating parameter e)], Inr False)
      | (lg, Inr valid) \<Rightarrow> (lg, Inr valid))))))"

text \<open>Lines 101 to 156, the loop and the final \<^verbatim>\<open>return is_valid\<close>.\<close>

fun validate_loop :: "pyval \<Rightarrow> pyval list \<Rightarrow> bool \<Rightarrow> log \<times> (exn + bool)" where
  "validate_loop config_data [] is_valid = ([], Inr is_valid)"
| "validate_loop config_data (rule # rules) is_valid =
     (case check_rule config_data rule is_valid of
        (lg, Inl e) \<Rightarrow> (lg, Inl e)
      | (lg, Inr valid) \<Rightarrow>
          (case validate_loop config_data rules valid of (lg', r) \<Rightarrow> (lg @ lg', r)))"

text \<open>
  \<^verbatim>\<open>validate_config\<close>, on the two fields it reads: the entries logged, and the verdict
  returned (\<open>Inr\<close>) or the exception that leaves the method (\<open>Inl\<close>).
\<close>

definition validate_config :: "pyval \<Rightarrow> pyval \<Rightarrow> log \<times> (exn + bool)" where
  "validate_config config_data rules_data =
     (if \<not> py_truthy config_data then ([(ERROR, ConfigNotLoaded)], Inr False)
      else if \<not> py_truthy rules_data then ([(ERROR, RulesNotLoaded)], Inr False)
      else (case py_iter rules_data of
              Inl e \<Rightarrow> ([], Inl e)
            | Inr rules \<Rightarrow> validate_loop config_data rules True))"

section \<open>One rule on its own\<close>

text \<open>
  What one iteration logs and whether it leaves \<^verbatim>\<open>is_valid\<close> alone, read off an
  iteration entered with \<^verbatim>\<open>is_valid = True\<close>.
\<close>

fun is_record :: "pyval \<Rightarrow> bool" where
  "is_record (PDict kvs) = True"
| "is_record _ = False"

text \<open>A field of a record as \<^verbatim>\<open>rule.get\<close> reads it: \<^verbatim>\<open>None\<close> when the key is missing.\<close>

definition record_get :: "(string \<times> pyval) list \<Rightarrow> string \<Rightarrow> pyval" where
  "record_get r k = (case map_of r k of Some v \<Rightarrow> v | None \<Rightarrow> PNone)"

text \<open>
  A rule record: a JSON object whose parameter has a text. Every object that
  \<^verbatim>\<open>json.load\<close> reads from a rules file is one (it refuses an \<^verbatim>\<open>int\<close> of more than 4300
  digits).
\<close>

fun is_rule_record :: "pyval \<Rightarrow> bool" where
  "is_rule_record (PDict r) = (\<not> str_raises (record_get r ''parameter''))"
| "is_rule_record _ = False"

definition rule_diagnostics :: "pyval \<Rightarrow> pyval \<Rightarrow> log" where
  "rule_diagnostics config_data rule = fst (check_rule config_data rule True)"

definition rule_passes :: "pyval \<Rightarrow> pyval \<Rightarrow> bool" where
  "rule_passes config_data rule = (snd (check_rule config_data rule True) = Inr True)"

section \<open>Reading a record, and the shape of one iteration\<close>

lemma py_get_record: "py_get (PDict r) (PStr k) = Inr (record_get r k)"
  by (simp add: record_get_def split: option.splits)

lemma check_rule_fields:
  "check_rule c (PDict r) v =
     (case try_body c (record_get r ''parameter'') (record_get r ''type'')
             (record_get r ''min'') (record_get r ''max'') v of
        (lg, Inl e) \<Rightarrow>
          if str_raises (record_get r ''parameter'') then (lg, Inl ValueError)
          else (lg @ [(ERROR, ErrorValidating (record_get r ''parameter'') e)], Inr False)
      | (lg, Inr valid) \<Rightarrow> (lg, Inr valid))"
  unfolding check_rule_def py_get_record by simp

text \<open>An \<^verbatim>\<open>int\<close> below a thousand million has a text.\<close>

lemma small_int_str [simp]: "abs i < 1000000000 \<Longrightarrow> int_str_raises i = False"
proof -
  assume small: "abs i < 1000000000"
  have "(10::int) ^ 9 \<le> 10 ^ int_max_str_digits"
    by (rule power_increasing) (simp_all add: int_max_str_digits_def)
  then have "(1000000000::int) \<le> 10 ^ int_max_str_digits" by simp
  with small show ?thesis by (simp add: int_str_raises_def)
qed

text \<open>
  The body of the \<^verbatim>\<open>try\<close> never sets \<^verbatim>\<open>is_valid\<close> to \<^verbatim>\<open>True\<close> and never reads it: what it
  logs does not depend on the flag, and the flag it leaves is the conjunction of the
  flag it found and its own outcome.
\<close>

lemma try_body_flag:
  "try_body c p t lo hi v =
     (fst (try_body c p t lo hi True),
      map_sum id (\<lambda>ok. v \<and> ok) (snd (try_body c p t lo hi True)))"
  by (auto simp: try_body_def range_validation_def Let_def split: sum.splits option.splits)

lemma check_rule_record:
  assumes "\<not> str_raises (record_get r ''parameter'')"
  shows "check_rule c (PDict r) v =
           (rule_diagnostics c (PDict r), Inr (v \<and> rule_passes c (PDict r)))"
proof -
  let ?p = "record_get r ''parameter''"
  let ?t = "record_get r ''type''"
  let ?lo = "record_get r ''min''"
  let ?hi = "record_get r ''max''"
  obtain lg res where tb: "try_body c ?p ?t ?lo ?hi True = (lg, res)"
    by (cases "try_body c ?p ?t ?lo ?hi True")
  have tbv: "try_body c ?p ?t ?lo ?hi v = (lg, map_sum id (\<lambda>ok. v \<and> ok) res)"
    using try_body_flag [of c ?p ?t ?lo ?hi v] tb by simp
  show ?thesis
    unfolding rule_diagnostics_def rule_passes_def check_rule_fields
    using tb tbv assms by (cases res) auto
qed

text \<open>An element of the rules that is not an object raises at the first \<^verbatim>\<open>rule.get\<close>.\<close>

lemma check_rule_not_record:
  "\<not> is_record rule \<Longrightarrow> check_rule c rule v = ([], Inl AttributeError)"
  by (cases rule) (simp_all add: check_rule_def)

section \<open>The loop over rule records\<close>

text \<open>
  Over rule records the loop runs to its end: it logs the diagnostics of every rule, in
  the order of the rules, and returns the conjunction of the flag it started with and
  the outcomes of all rules.
\<close>

lemma validate_loop_records:
  "list_all is_rule_record rules \<Longrightarrow>
   validate_loop c rules v =
     (concat (map (rule_diagnostics c) rules), Inr (v \<and> list_all (rule_passes c) rules))"
proof (induction rules arbitrary: v)
  case Nil
  then show ?case by simp
next
  case (Cons rule rules)
  then obtain r where r: "rule = PDict r" and p: "\<not> str_raises (record_get r ''parameter'')"
    by (cases rule) simp_all
  from Cons have IH: "\<And>v. validate_loop c rules v =
     (concat (map (rule_diagnostics c) rules), Inr (v \<and> list_all (rule_passes c) rules))"
    by simp
  show ?case by (simp add: r check_rule_record [OF p] IH)
qed

lemma validate_config_records:
  assumes "py_truthy c" and "rules \<noteq> []" and "list_all is_rule_record rules"
  shows "validate_config c (PList rules) =
     (concat (map (rule_diagnostics c) rules), Inr (list_all (rule_passes c) rules))"
  using assms by (simp add: validate_config_def validate_loop_records)

section \<open>Booleans under an integer rule\<close>

text \<open>
  C1. The claim: a rule of type \<^verbatim>\<open>"integer"\<close> whose parameter holds a boolean logs a type
  mismatch and the verdict is false. The source tests \<^verbatim>\<open>isinstance(value, int)\<close>, which
  holds of \<^verbatim>\<open>True\<close> and \<^verbatim>\<open>False\<close>: on the document \<^verbatim>\<open>{"flag": true}\<close> and the rule
  \<^verbatim>\<open>{"parameter": "flag", "type": "integer"}\<close> nothing is logged and the verdict is true.
\<close>

theorem integer_rule_accepts_boolean:
  "validate_config (PDict [(''flag'', PBool True)])
     (PList [PDict [(''parameter'', PStr ''flag''), (''type'', PStr ''integer'')]]) =
   ([], Inr True)"
  by (simp add: validate_config_def check_rule_def try_body_def type_validation_def
      range_validation_def)

section \<open>The empty document and the empty rule set\<close>

text \<open>
  C2. The claim: on the empty document \<^verbatim>\<open>{}\<close> and the single rule
  \<^verbatim>\<open>{"parameter": "name", "type": "string"}\<close> the verdict is true, with one warning and no
  error. The source starts with \<^verbatim>\<open>if not self.config_data\<close>, and an empty dictionary is
  false: it logs the error "Configuration data is not loaded." and returns \<^verbatim>\<open>False\<close>
  before any rule is read.
\<close>

theorem empty_document_scenario:
  "validate_config (PDict [])
     (PList [PDict [(''parameter'', PStr ''name''), (''type'', PStr ''string'')]]) =
   ([(ERROR, ConfigNotLoaded)], Inr False)"
  by (simp add: validate_config_def)

text \<open>
  A rule whose parameter is absent from a document logs one warning and leaves the
  flag as it found it.
\<close>

lemma absent_parameter_warning:
  assumes "map_of rule ''parameter'' = Some (PStr p)" and "map_of doc p = None"
  shows "check_rule (PDict doc) (PDict rule) is_valid =
           ([(WARNING, NotFound (PStr p))], Inr is_valid)"
  using assms by (simp add: check_rule_fields record_get_def try_body_def)

text \<open>
  C3. The claim: for every rule set and every document, a rule whose parameter is absent
  contributes a warning only and never changes the verdict. In the empty document every
  parameter is absent, yet whatever the rules are, the source logs one error and
  returns \<^verbatim>\<open>False\<close>.
\<close>

theorem empty_document_fails_verdict:
  "validate_config (PDict []) rules_data = ([(ERROR, ConfigNotLoaded)], Inr False)"
  by (simp add: validate_config_def)

text \<open>
  C4. The claim: for every rule set and every document every rule is evaluated and the
  verdict is the conjunction of the outcomes of the rules. The conjunction over the empty
  rule set is true; the source tests \<^verbatim>\<open>if not self.rules_data\<close>, an empty list is false,
  and the verdict on the empty rule set is \<^verbatim>\<open>False\<close> for every document.
\<close>

theorem empty_rule_set_fails_verdict:
  "snd (validate_config config_data (PList [])) = Inr False"
  by (simp add: validate_config_def)

section \<open>Type mismatch and the range check\<close>

text \<open>
  When the \<^verbatim>\<open>isinstance\<close> test of the rule's type fails, the iteration logs that one
  error and ends (\<^verbatim>\<open>continue\<close>): the bounds are not read.
\<close>

lemma type_mismatch_skips_range:
  assumes "map_of rule ''parameter'' = Some (PStr p)"
      and "map_of doc p = Some v" and "v \<noteq> PNone"
      and "map_of rule ''type'' = Some t" and "type_validation t v = Some expected"
  shows "check_rule (PDict doc) (PDict rule) is_valid =
           ([(ERROR, IncorrectType (PStr p) expected (type_name v))], Inr False)"
  using assms by (simp add: check_rule_fields record_get_def try_body_def)

text \<open>
  C5. The claim: under a rule of type \<^verbatim>\<open>"integer"\<close> or \<^verbatim>\<open>"float"\<close> a value of the wrong kind
  gives exactly one type mismatch and no range violation. A boolean is of the wrong kind
  for both, and the source lets it through both \<^verbatim>\<open>isinstance\<close> tests: on
  \<^verbatim>\<open>{"flag": true}\<close> and \<^verbatim>\<open>{"parameter": "flag", "type": "integer", "min": 5}\<close> no type
  mismatch is logged, \<^verbatim>\<open>True\<close> is compared with 5 as the number 1, and a range violation
  is logged.
\<close>

theorem boolean_on_integer_rule_range_checked:
  "validate_config (PDict [(''flag'', PBool True)])
     (PList [PDict [(''parameter'', PStr ''flag''), (''type'', PStr ''integer''),
                    (''min'', PInt 5)]]) =
   ([(ERROR, LessThanMinimum (PStr ''flag'') (PBool True) (PInt 5))], Inr False)"
  by (simp add: validate_config_def check_rule_def try_body_def type_validation_def
      range_validation_def py_lt_def py_gt_def)








section \<open>Failures while a rule is evaluated\<close>

text \<open>
  C7. The claim: any failure raised while one rule is evaluated, a malformed rule record
  for one, is caught and logged, and the remaining rules are evaluated. The four
  \<^verbatim>\<open>rule.get\<close> calls stand before the \<^verbatim>\<open>try\<close>: on the rules \<^verbatim>\<open>["port", {...}]\<close> the first
  call raises \<^verbatim>\<open>AttributeError\<close>, which leaves \<^verbatim>\<open>validate_config\<close>; nothing is logged and
  the second rule is never read.
\<close>

theorem non_record_rule_raises:
  "validate_config (PDict [(''port'', PInt 8080)])
     (PList [PStr ''port'', PDict [(''parameter'', PStr ''name''), (''type'', PStr ''string'')]]) =
   ([], Inl AttributeError)"
  by (simp add: validate_config_def check_rule_def)

section \<open>Null values and unrecognized types\<close>

text \<open>
  C9. A rule whose parameter is bound to \<^verbatim>\<open>null\<close> is treated as a rule whose parameter is
  absent: whatever type and bounds the rule has, the iteration logs the warning
  "not found" and nothing else and leaves the flag as it found it; it does what it
  does on the document without the key; and as the only rule it gives the verdict true.
\<close>

theorem null_value_treated_as_absent:
  assumes "map_of rule ''parameter'' = Some (PStr p)" and "map_of doc p = Some PNone"
  shows "check_rule (PDict doc) (PDict rule) is_valid =
           ([(WARNING, NotFound (PStr p))], Inr is_valid)
       \<and> check_rule (PDict (AList.delete p doc)) (PDict rule) is_valid =
           check_rule (PDict doc) (PDict rule) is_valid
       \<and> validate_config (PDict doc) (PList [PDict rule]) =
           ([(WARNING, NotFound (PStr p))], Inr True)"
proof -
  have "doc \<noteq> []" using assms(2) by auto
  then show ?thesis
    using assms
    by (simp add: validate_config_def check_rule_fields record_get_def try_body_def
        delete_conv')
qed

theorem null_value_treated_as_absent_witness:
  "validate_config (PDict [(''port'', PNone)])
     (PList [PDict [(''parameter'', PStr ''port''), (''type'', PStr ''integer''),
                    (''min'', PInt 1)]]) =
   ([(WARNING, NotFound (PStr ''port''))], Inr True)"
  using null_value_treated_as_absent
    [of "[(''parameter'', PStr ''port''), (''type'', PStr ''integer''), (''min'', PInt 1)]"
        "''port''" "[(''port'', PNone)]"]
  by simp

text \<open>
  C10. A rule whose type is a string other than the five type names, on a parameter
  bound to a value that is not \<^verbatim>\<open>null\<close>: whatever \<^verbatim>\<open>min\<close> and \<^verbatim>\<open>max\<close> are, the iteration
  logs nothing and leaves the flag as it found it; it does what it does on the same
  rule without its type field; and as the only rule it gives the verdict true.
\<close>

theorem unrecognized_type_unchecked:
  assumes "map_of rule ''parameter'' = Some (PStr p)"
      and "map_of rule ''type'' = Some (PStr t)"
      and "t \<notin> {''integer'', ''float'', ''string'', ''boolean'', ''list''}"
      and "map_of doc p = Some v" and "v \<noteq> PNone"
  shows "check_rule (PDict doc) (PDict rule) is_valid = ([], Inr is_valid)
       \<and> check_rule (PDict doc) (PDict (AList.delete ''type'' rule)) is_valid =
           check_rule (PDict doc) (PDict rule) is_valid
       \<and> validate_config (PDict doc) (PList [PDict rule]) = ([], Inr True)"
proof -
  have "doc \<noteq> []" using assms(4) by auto
  then show ?thesis
    using assms
    by (simp add: validate_config_def check_rule_fields record_get_def try_body_def
        delete_conv' type_validation_def range_validation_def)
qed

theorem unrecognized_type_unchecked_witness:
  "validate_config (PDict [(''port'', PStr ''eighty'')])
     (PList [PDict [(''parameter'', PStr ''port''), (''type'', PStr ''number''),
                    (''min'', PInt 1024)]]) =
   ([], Inr True)"
  using unrecognized_type_unchecked
    [of "[(''parameter'', PStr ''port''), (''type'', PStr ''number''), (''min'', PInt 1024)]"
        "''port''" "''number''" "[(''port'', PStr ''eighty'')]" "PStr ''eighty''"]
  by simp

section \<open>The order of the rules\<close>

lemma mset_concat_map:
  "mset (concat (map f xs)) = sum_mset (image_mset (\<lambda>x. mset (f x)) (mset xs))"
  by (induction xs) simp_all

text \<open>
  Over rule records the order of the rules changes the order of the log only: a
  permutation of the rule set gives the same verdict and the same multiset of log
  entries, hence of (parameter, severity, kind) tuples.
\<close>

lemma rule_records_order_independent:
  assumes "mset rules' = mset rules" and "list_all is_rule_record rules"
  shows "snd (validate_config c (PList rules')) = snd (validate_config c (PList rules))
       \<and> mset (fst (validate_config c (PList rules'))) =
           mset (fst (validate_config c (PList rules)))
       \<and> image_mset diagnostic_tuple (mset (fst (validate_config c (PList rules')))) =
           image_mset diagnostic_tuple (mset (fst (validate_config c (PList rules))))"
proof -
  have sets: "set rules' = set rules" using assms(1) by (rule mset_eq_setD)
  then have rec': "list_all is_rule_record rules'" using assms(2) by (simp add: list_all_iff)
  have empty: "rules' = [] \<longleftrightarrow> rules = []" using sets by auto
  have verdicts: "list_all (rule_passes c) rules' = list_all (rule_passes c) rules"
    using sets by (simp add: list_all_iff)
  have logs: "mset (concat (map (rule_diagnostics c) rules')) =
              mset (concat (map (rule_diagnostics c) rules))"
    by (simp add: mset_concat_map assms(1))
  have loop: "validate_loop c rs True =
      (concat (map (rule_diagnostics c) rs), Inr (list_all (rule_passes c) rs))"
    if "list_all is_rule_record rs" for rs
    using validate_loop_records [OF that, of c True] by simp
  have "snd (validate_config c (PList rules')) = snd (validate_config c (PList rules))
       \<and> mset (fst (validate_config c (PList rules'))) =
           mset (fst (validate_config c (PList rules)))"
    using empty verdicts logs
    by (simp add: validate_config_def loop [OF rec'] loop [OF assms(2)])
  then show ?thesis by simp
qed

text \<open>
  C8. The claim: for every rule set, every permutation of it gives the same verdict and
  the same multiset of diagnostics. The rules \<^verbatim>\<open>[{port rule}, "bad"]\<close> and
  \<^verbatim>\<open>["bad", {port rule}]\<close> are permutations of each other. On the document
  \<^verbatim>\<open>{"port": 80}\<close> the first logs the range error of the port rule and then raises at
  \<^verbatim>\<open>"bad"\<close>; the second raises at once and logs nothing. Neither returns a verdict.
\<close>

theorem permutation_changes_diagnostics:
  "validate_config (PDict [(''port'', PInt 80)])
     (PList [PDict [(''parameter'', PStr ''port''), (''type'', PStr ''integer''),
                    (''min'', PInt 1024)],
             PStr ''bad'']) =
   ([(ERROR, LessThanMinimum (PStr ''port'') (PInt 80) (PInt 1024))], Inl AttributeError)
   \<and> validate_config (PDict [(''port'', PInt 80)])
       (PList [PStr ''bad'',
               PDict [(''parameter'', PStr ''port''), (''type'', PStr ''integer''),
                      (''min'', PInt 1024)]]) =
     ([], Inl AttributeError)"
  by (simp add: validate_config_def check_rule_def try_body_def type_validation_def
      range_validation_def py_lt_def py_gt_def)

end
